theory Spec2Isabelle
  imports Complex_Main "HOL-Library.List_Lexorder" "HOL-Library.Char_ord" "HOL-Library.Multiset"
begin

section \<open>Values of the Python program\<close>

text \<open>
  \<^verbatim>\<open>fetch_jobs.py\<close> works on what \<^verbatim>\<open>json.loads\<close> returns, so its data are JSON
  values: \<^verbatim>\<open>None\<close>, \<^verbatim>\<open>bool\<close>, \<^verbatim>\<open>int\<close> (unbounded), \<^verbatim>\<open>float\<close>, \<^verbatim>\<open>str\<close>, \<^verbatim>\<open>list\<close>
  and \<^verbatim>\<open>dict\<close>. A float is represented by the rational number it denotes (non-finite
  floats and the sign of zero are not represented). A string is a list of characters,
  compared character by character (the characters here are the 256 of \<open>char\<close>).
  An object is the list of its members in the order of the text; as in \<^verbatim>\<open>json.loads\<close>,
  the last member with a given name is the one a lookup finds.
\<close>

datatype json =
    JNull
  | JBool bool
  | JInt int
  | JFloat rat
  | JStr string
  | JArr "json list"
  | JObj "(string \<times> json) list"

text \<open>
  The exception classes that can occur. \<^verbatim>\<open>HTTPError\<close> is a subclass of \<^verbatim>\<open>URLError\<close>,
  which like \<^verbatim>\<open>TimeoutError\<close> and \<^verbatim>\<open>ConnectionResetError\<close> is a subclass of \<^verbatim>\<open>OSError\<close>;
  \<^verbatim>\<open>JSONDecodeError\<close> and \<^verbatim>\<open>UnicodeDecodeError\<close> are subclasses of \<^verbatim>\<open>ValueError\<close>;
  \<^verbatim>\<open>IncompleteRead\<close> (an \<^verbatim>\<open>HTTPException\<close>) is neither.
\<close>

datatype exn =
    HTTPError int string
  | URLError
  | TimeoutError
  | ConnectionResetError
  | OSError
  | ValueError
  | JSONDecodeError
  | UnicodeDecodeError
  | AttributeError
  | TypeError
  | OverflowError
  | IncompleteRead

fun is_HTTPError :: "exn \<Rightarrow> bool" where
  "is_HTTPError (HTTPError code reason) = True"
| "is_HTTPError _ = False"

fun is_OSError :: "exn \<Rightarrow> bool" where
  "is_OSError (HTTPError code reason) = True"
| "is_OSError URLError = True"
| "is_OSError TimeoutError = True"
| "is_OSError ConnectionResetError = True"
| "is_OSError OSError = True"
| "is_OSError _ = False"

fun is_ValueError :: "exn \<Rightarrow> bool" where
  "is_ValueError ValueError = True"
| "is_ValueError JSONDecodeError = True"
| "is_ValueError UnicodeDecodeError = True"
| "is_ValueError _ = False"

text \<open>Sequencing of steps that may raise: the first exception ends the computation.\<close>

fun bnd :: "exn + 'a \<Rightarrow> ('a \<Rightarrow> exn + 'b) \<Rightarrow> exn + 'b" where
  "bnd (Inl e) f = Inl e"
| "bnd (Inr x) f = f x"

text \<open>Truth value testing (\<^verbatim>\<open>if x:\<close>, \<^verbatim>\<open>not x\<close>, \<^verbatim>\<open>x and y\<close>, \<^verbatim>\<open>x or y\<close>).\<close>

fun truthy :: "json \<Rightarrow> bool" where
  "truthy JNull = False"
| "truthy (JBool b) = b"
| "truthy (JInt i) = (i \<noteq> 0)"
| "truthy (JFloat r) = (r \<noteq> 0)"
| "truthy (JStr s) = (s \<noteq> [])"
| "truthy (JArr xs) = (xs \<noteq> [])"
| "truthy (JObj kvs) = (kvs \<noteq> [])"

text \<open>Whether a value is a dict.\<close>

fun is_dict :: "json \<Rightarrow> bool" where
  "is_dict (JObj kvs) = True"
| "is_dict _ = False"

text \<open>\<^verbatim>\<open>d.get(k, default)\<close>; a value that is not a dict has no attribute \<^verbatim>\<open>get\<close>.\<close>

definition dict_get :: "(string \<times> json) list \<Rightarrow> string \<Rightarrow> json \<Rightarrow> json" where
  "dict_get kvs k d = (case map_of (rev kvs) k of None \<Rightarrow> d | Some v \<Rightarrow> v)"

fun py_get :: "json \<Rightarrow> string \<Rightarrow> json \<Rightarrow> exn + json" where
  "py_get (JObj kvs) k d = Inr (dict_get kvs k d)"
| "py_get _ k d = Inl AttributeError"

text \<open>
  Membership in a Python \<^verbatim>\<open>set\<close> goes by hash and equality: numbers (\<^verbatim>\<open>bool\<close>, \<^verbatim>\<open>int\<close>,
  \<^verbatim>\<open>float\<close>) are equal when their values are, strings when their characters are; lists
  and dicts are unhashable. \<open>py_hash\<close> maps a value to the key under which a set holds it.
\<close>

datatype hkey = KNone | KNum rat | KStr string

fun py_hash :: "json \<Rightarrow> exn + hkey" where
  "py_hash JNull = Inr KNone"
| "py_hash (JBool b) = Inr (KNum (if b then 1 else 0))"
| "py_hash (JInt i) = Inr (KNum (of_int i))"
| "py_hash (JFloat r) = Inr (KNum r)"
| "py_hash (JStr s) = Inr (KStr s)"
| "py_hash (JArr xs) = Inl TypeError"
| "py_hash (JObj kvs) = Inl TypeError"

text \<open>
  \<^verbatim>\<open>len(x)\<close> and \<^verbatim>\<open>for job in x\<close>: a list yields its elements, a string its characters
  (strings of length one), a dict its keys in order of first insertion; the other values
  have no length.
\<close>

fun py_len :: "json \<Rightarrow> exn + nat" where
  "py_len (JArr xs) = Inr (length xs)"
| "py_len (JStr s) = Inr (length s)"
| "py_len (JObj kvs) = Inr (length (remdups (map fst kvs)))"
| "py_len _ = Inl TypeError"

fun py_iter :: "json \<Rightarrow> exn + json list" where
  "py_iter (JArr xs) = Inr xs"
| "py_iter (JStr s) = Inr (map (\<lambda>c. JStr [c]) s)"
| "py_iter (JObj kvs) = Inr (map JStr (rev (remdups (rev (map fst kvs)))))"
| "py_iter _ = Inl TypeError"

section \<open>Library functions\<close>

text \<open>
  A \<^verbatim>\<open>datetime\<close> is naive (a wall-clock reading) or aware (an instant); both are counted
  in microseconds. Comparing a naive with an aware one raises \<^verbatim>\<open>TypeError\<close>.
\<close>

datatype pydatetime = Naive int | Aware int

fun datetime_lt :: "pydatetime \<Rightarrow> pydatetime \<Rightarrow> exn + bool" where
  "datetime_lt (Aware a) (Aware b) = Inr (a < b)"
| "datetime_lt (Naive a) (Naive b) = Inr (a < b)"
| "datetime_lt _ _ = Inl TypeError"

text \<open>
  Two functions of the Python library are parameters of the model: \<^verbatim>\<open>datetime.fromisoformat\<close>
  on a string (which raises or returns a datetime), and the builtin \<^verbatim>\<open>str\<close> on a value that
  is not a string (used by f-strings). Everything proved below holds for every choice of them.
\<close>

record pylib =
  fromisoformat :: "string \<Rightarrow> exn + pydatetime"
  py_str :: "json \<Rightarrow> string"

text \<open>\<^verbatim>\<open>f"{v}"\<close>: a string is inserted as it is.\<close>

fun fstr :: "pylib \<Rightarrow> json \<Rightarrow> string" where
  "fstr L (JStr s) = s"
| "fstr L v = py_str L v"

text \<open>\<^verbatim>\<open>s.replace("Z", "+00:00")\<close> replaces every \<^verbatim>\<open>Z\<close> of the string.\<close>

definition replace_Z :: "string \<Rightarrow> string" where
  "replace_Z s = concat (map (\<lambda>c. if c = CHR ''Z'' then ''+00:00'' else [c]) s)"

text \<open>\<^verbatim>\<open>s.strip(chars)\<close> removes leading and trailing characters that occur in \<^verbatim>\<open>chars\<close>.\<close>

definition strip :: "string \<Rightarrow> string \<Rightarrow> string" where
  "strip s chars =
     rev (dropWhile (\<lambda>c. c \<in> set chars) (rev (dropWhile (\<lambda>c. c \<in> set chars) s)))"

subsection \<open>The format specification \<^verbatim>\<open>,.0f\<close>\<close>

function decimal :: "int \<Rightarrow> string" where
  "decimal n =
     (if n < 10 then [''0123456789'' ! nat n]
      else decimal (n div 10) @ [''0123456789'' ! nat (n mod 10)])"
  by pat_completeness auto
termination
  by (relation "measure nat") auto

declare decimal.simps [simp del]

fun group3 :: "string \<Rightarrow> string" where
  "group3 (a # b # c # d # ds) = a # b # c # CHR '','' # group3 (d # ds)"
| "group3 ds = ds"

definition commas :: "string \<Rightarrow> string" where
  "commas ds = rev (group3 (rev ds))"

text \<open>Rounding a non-negative number to an integer, ties to the even one.\<close>

definition round_half_even :: "rat \<Rightarrow> int" where
  "round_half_even a =
     (let f = \<lfloor>a\<rfloor>; d = a - of_int f
      in if 1 / 2 < d \<or> (d = 1 / 2 \<and> odd f) then f + 1 else f)"

text \<open>\<^verbatim>\<open>format(x, ",.0f")\<close> for a float \<open>x\<close>: sign, then the rounded magnitude in groups of three.\<close>

definition format_float :: "rat \<Rightarrow> string" where
  "format_float x =
     (if x < 0 then ''-'' else '''') @ commas (decimal (round_half_even \<bar>x\<bar>))"

text \<open>
  An \<^verbatim>\<open>int\<close> is converted to a float first: exactly up to 53 bits, beyond that rounded to
  53 significant bits (ties to even), and \<^verbatim>\<open>OverflowError\<close> from \<open>2 ^ 1024\<close> on.
\<close>

function bit_length :: "int \<Rightarrow> nat" where
  "bit_length n = (if n \<le> 0 then 0 else Suc (bit_length (n div 2)))"
  by pat_completeness auto
termination
  by (relation "measure nat") auto

declare bit_length.simps [simp del]

definition int_to_float :: "int \<Rightarrow> exn + rat" where
  "int_to_float i =
     (let n = \<bar>i\<bar>; l = bit_length n
      in if l \<le> 53 then Inr (of_int i)
         else
           let sh = l - 53; q = n div 2 ^ sh; r = n mod 2 ^ sh; h = 2 ^ (sh - 1);
               q' = (if h < r \<or> (r = h \<and> odd q) then q + 1 else q);
               v = q' * 2 ^ sh
           in if 2 ^ 1024 \<le> v then Inl OverflowError
              else Inr (of_int (if i < 0 then - v else v)))"

text \<open>
  \<^verbatim>\<open>f"{v:,.0f}"\<close>: numbers are formatted (\<^verbatim>\<open>bool\<close> is a subclass of \<^verbatim>\<open>int\<close>), a string
  rejects the format code with \<^verbatim>\<open>ValueError\<close>, the other types reject any format
  specification with \<^verbatim>\<open>TypeError\<close>.
\<close>

fun format_amount :: "json \<Rightarrow> exn + string" where
  "format_amount (JInt i) = bnd (int_to_float i) (\<lambda>x. Inr (format_float x))"
| "format_amount (JBool b) = Inr (format_float (if b then 1 else 0))"
| "format_amount (JFloat x) = Inr (format_float x)"
| "format_amount (JStr s) = Inl ValueError"
| "format_amount _ = Inl TypeError"

section \<open>The network\<close>

text \<open>
  What the body of the \<^verbatim>\<open>try\<close> in \<^verbatim>\<open>fetch_jobs_for_query\<close> meets for one request:
  \<^verbatim>\<open>urlopen\<close>, \<^verbatim>\<open>read\<close>, \<^verbatim>\<open>decode\<close> or \<^verbatim>\<open>json.loads\<close> raises an exception, or
  \<^verbatim>\<open>json.loads\<close> returns the value of the body. \<^verbatim>\<open>urlopen\<close> raises \<^verbatim>\<open>HTTPError\<close> for a
  response that is not a success, and \<^verbatim>\<open>json.loads\<close> raises \<^verbatim>\<open>JSONDecodeError\<close> for a body
  that is not JSON.
\<close>

datatype response = Raises exn | Returns json

text \<open>
  \<^verbatim>\<open>fetch_jobs_for_query\<close> (lines 31-56), given what the network does with its request.
  The request line built from the query, the location and the remote flag does not
  influence what the function does with the response. The first handler catches
  \<^verbatim>\<open>HTTPError\<close>, the second \<^verbatim>\<open>URLError\<close>, \<^verbatim>\<open>TimeoutError\<close> and \<^verbatim>\<open>OSError\<close> (all of them
  \<^verbatim>\<open>OSError\<close>s); both return the empty list. Any other exception propagates.
\<close>

definition fetch_jobs_for_query :: "response \<Rightarrow> exn + json" where
  "fetch_jobs_for_query resp =
     (case resp of
        Returns data \<Rightarrow> py_get data ''data'' (JArr [])
      | Raises e \<Rightarrow>
          if is_HTTPError e then Inr (JArr [])
          else if is_OSError e then Inr (JArr [])
          else Inl e)"

section \<open>Normalising one listing\<close>

record normalized =
  jid :: json
  title :: json
  company :: json
  location_str :: string
  is_remote :: json
  date_posted :: json
  salary :: string
  apply_link :: json
  description_snippet :: json
  employer_logo :: json

text \<open>The accumulators of \<^verbatim>\<open>main\<close>: \<^verbatim>\<open>all_jobs\<close> and \<^verbatim>\<open>seen_ids\<close>.\<close>

record state =
  all_jobs :: "normalized list"
  seen_ids :: "hkey set"

text \<open>
  Lines 80-87. The result says whether the \<^verbatim>\<open>continue\<close> of line 85 is taken. A value that
  is truthy and not a string has no \<^verbatim>\<open>replace\<close>. The handler catches \<^verbatim>\<open>ValueError\<close> only.
\<close>

definition posted_before_cutoff :: "pylib \<Rightarrow> int \<Rightarrow> json \<Rightarrow> exn + bool" where
  "posted_before_cutoff L cutoff posted =
     (if truthy posted then
        (case (case posted of
                 JStr s \<Rightarrow>
                   bnd (fromisoformat L (replace_Z s))
                     (\<lambda>posted_dt. datetime_lt posted_dt (Aware cutoff))
               | _ \<Rightarrow> Inl AttributeError) of
           Inl e \<Rightarrow> if is_ValueError e then Inr False else Inl e
         | Inr b \<Rightarrow> Inr b)
      else Inr False)"

text \<open>Line 94.\<close>

definition location_of :: "pylib \<Rightarrow> json \<Rightarrow> json \<Rightarrow> json \<Rightarrow> string" where
  "location_of L remote_flag city state =
     (if truthy remote_flag then ''Remote''
      else strip (fstr L city @ '', '' @ fstr L state) '', '')"

text \<open>Lines 99-107.\<close>

definition salary_text :: "pylib \<Rightarrow> json \<Rightarrow> json \<Rightarrow> json \<Rightarrow> exn + string" where
  "salary_text L salary_min salary_max salary_period =
     (if truthy salary_min \<and> truthy salary_max then
        bnd (format_amount salary_min) (\<lambda>a.
        bnd (format_amount salary_max) (\<lambda>b.
          Inr (''$'' @ a @ '' - $'' @ b @
               (if truthy salary_period then '' ('' @ fstr L salary_period @ '')'' else []))))
      else if truthy salary_min then
        bnd (format_amount salary_min) (\<lambda>a. Inr (''From $'' @ a))
      else if truthy salary_max then
        bnd (format_amount salary_max) (\<lambda>b. Inr (''Up to $'' @ b))
      else Inr [])"

text \<open>
  Line 118: \<^verbatim>\<open>(d or "")[:200]\<close>. Strings and lists can be sliced; a number, \<^verbatim>\<open>True\<close> or a
  dict cannot (for a dict the exception is \<^verbatim>\<open>KeyError\<close> from Python 3.12 on, where a slice
  is hashable; no claim depends on which of the two it is).
\<close>

fun slice200 :: "json \<Rightarrow> exn + json" where
  "slice200 (JStr s) = Inr (JStr (take 200 s))"
| "slice200 (JArr xs) = Inr (JArr (take 200 xs))"
| "slice200 _ = Inl TypeError"

definition snippet_of :: "json \<Rightarrow> exn + json" where
  "snippet_of d = slice200 (if truthy d then d else JStr [])"

text \<open>Lines 91-120: the record appended for an accepted listing.\<close>

definition normalize :: "pylib \<Rightarrow> json \<Rightarrow> json \<Rightarrow> json \<Rightarrow> exn + normalized" where
  "normalize L job job_id posted =
     bnd (py_get job ''job_is_remote'' (JBool False)) (\<lambda>remote_flag.
     bnd (py_get job ''job_city'' (JStr [])) (\<lambda>city.
     bnd (py_get job ''job_state'' (JStr [])) (\<lambda>state.
     bnd (py_get job ''job_min_salary'' JNull) (\<lambda>salary_min.
     bnd (py_get job ''job_max_salary'' JNull) (\<lambda>salary_max.
     bnd (py_get job ''job_salary_period'' (JStr [])) (\<lambda>salary_period.
     bnd (salary_text L salary_min salary_max salary_period) (\<lambda>sal.
     bnd (py_get job ''job_title'' (JStr ''Unknown Title'')) (\<lambda>t.
     bnd (py_get job ''employer_name'' (JStr ''Unknown Company'')) (\<lambda>c.
     bnd (py_get job ''job_apply_link'' (JStr [])) (\<lambda>link.
     bnd (py_get job ''job_description'' (JStr [])) (\<lambda>d.
     bnd (snippet_of d) (\<lambda>snippet.
     bnd (py_get job ''employer_logo'' (JStr [])) (\<lambda>logo.
       Inr \<lparr> jid = job_id, title = t, company = c,
             location_str = location_of L remote_flag city state,
             is_remote = remote_flag, date_posted = posted, salary = sal,
             apply_link = link, description_snippet = snippet,
             employer_logo = logo \<rparr>)))))))))))))"

text \<open>
  Lines 76-120: the body of the inner loop. \<^verbatim>\<open>not job_id or job_id in seen_ids\<close> tests
  membership only for a truthy identifier.
\<close>

definition process_job :: "pylib \<Rightarrow> int \<Rightarrow> json \<Rightarrow> state \<Rightarrow> exn + state" where
  "process_job L cutoff job st =
     bnd (py_get job ''job_id'' (JStr [])) (\<lambda>job_id.
     bnd (if \<not> truthy job_id then Inr True
          else bnd (py_hash job_id) (\<lambda>k. Inr (k \<in> seen_ids st))) (\<lambda>skip.
     if skip then Inr st
     else
       bnd (py_get job ''job_posted_at_datetime_utc'' (JStr [])) (\<lambda>posted.
       bnd (posted_before_cutoff L cutoff posted) (\<lambda>old.
       if old then Inr st
       else
         bnd (py_hash job_id) (\<lambda>k.
         bnd (normalize L job job_id posted) (\<lambda>n.
           Inr \<lparr> all_jobs = all_jobs st @ [n],
                 seen_ids = insert k (seen_ids st) \<rparr>))))))"

text \<open>Line 75: \<^verbatim>\<open>for job in results\<close>.\<close>

fun process_results :: "pylib \<Rightarrow> int \<Rightarrow> json list \<Rightarrow> state \<Rightarrow> exn + state" where
  "process_results L cutoff [] st = Inr st"
| "process_results L cutoff (job # rest) st =
     bnd (process_job L cutoff job st) (process_results L cutoff rest)"

section \<open>The run\<close>

record search =
  query :: string
  location :: string
  remote :: bool

definition SEARCHES :: "search list" where
  "SEARCHES =
     [\<lparr>query = ''marketing director women's health'', location = ''New York, NY'', remote = False\<rparr>,
      \<lparr>query = ''marketing director women's health'', location = ''United States'', remote = True\<rparr>,
      \<lparr>query = ''VP marketing mental health'', location = ''New York, NY'', remote = False\<rparr>,
      \<lparr>query = ''VP marketing mental health'', location = ''United States'', remote = True\<rparr>,
      \<lparr>query = ''brand strategy healthcare'', location = ''New York, NY'', remote = False\<rparr>,
      \<lparr>query = ''brand strategy healthcare'', location = ''United States'', remote = True\<rparr>,
      \<lparr>query = ''brand director femtech'', location = ''New York, NY'', remote = False\<rparr>,
      \<lparr>query = ''brand director femtech'', location = ''United States'', remote = True\<rparr>]"

definition CUTOFF_HOURS :: int where
  "CUTOFF_HOURS = 48"

record run_output =
  last_updated :: int
  job_count :: nat
  jobs :: "normalized list"

text \<open>
  What a run does to the world, in order: requests, pauses, and the write of
  \<^verbatim>\<open>jobs.json\<close>. The lines printed on the console are not recorded.
\<close>

datatype event = HttpRequest search | Sleep nat | WriteFile run_output

text \<open>How the process ends: \<^verbatim>\<open>sys.exit\<close> or the end of \<^verbatim>\<open>main\<close>, or an exception nobody caught.\<close>

datatype exit_status = Exit nat | Uncaught exn

text \<open>
  The surroundings of a run: the process environment, the network's answer to the request
  number \<open>i\<close> (from 0), and the two readings of the clock (lines 64 and 125), in
  microseconds.
\<close>

record env =
  environ :: "string \<Rightarrow> string option"
  respond :: "nat \<Rightarrow> response"
  clock_start :: int
  clock_end :: int

text \<open>Line 13.\<close>

definition API_KEY :: "env \<Rightarrow> string" where
  "API_KEY E = (case environ E ''RAPIDAPI_KEY'' of None \<Rightarrow> [] | Some v \<Rightarrow> v)"

text \<open>
  Lines 68-120: the loop over the searches, from request number \<open>i\<close>. The pause of line 73
  comes after \<^verbatim>\<open>len(results)\<close> has been printed. The result is the events of the loop and
  the accumulators, or the exception that ended it.
\<close>

fun run_searches ::
  "pylib \<Rightarrow> env \<Rightarrow> int \<Rightarrow> search list \<Rightarrow> nat \<Rightarrow> state \<Rightarrow> event list \<times> (exn + state)" where
  "run_searches L E cutoff [] i st = ([], Inr st)"
| "run_searches L E cutoff (s # ss) i st =
     (case bnd (fetch_jobs_for_query (respond E i))
             (\<lambda>results. bnd (py_len results) (\<lambda>n. Inr results)) of
        Inl e \<Rightarrow> ([HttpRequest s], Inl e)
      | Inr results \<Rightarrow>
          (case bnd (py_iter results) (\<lambda>js. process_results L cutoff js st) of
             Inl e \<Rightarrow> ([HttpRequest s, Sleep 2], Inl e)
           | Inr st' \<Rightarrow>
               (case run_searches L E cutoff ss (Suc i) st' of
                  (tr, r) \<Rightarrow> (HttpRequest s # Sleep 2 # tr, r))))"

text \<open>
  Line 122: \<^verbatim>\<open>all_jobs.sort(key=..., reverse=True)\<close>. With \<^verbatim>\<open>reverse=True\<close> the list is
  reversed, sorted stably in ascending order and reversed again. The keys must be
  comparable: strings with strings (by characters), numbers with numbers; \<^verbatim>\<open>None\<close> and
  dicts are not comparable to anything, so a list of two or more with such a key, or with
  keys of two kinds, raises \<^verbatim>\<open>TypeError\<close>. A key that is a list is the empty list here (a
  truthy value that is not a string never becomes a \<^verbatim>\<open>date_posted\<close>), equal to every
  other empty list.
\<close>

definition sort_desc :: "('a \<Rightarrow> 'k::linorder) \<Rightarrow> 'a list \<Rightarrow> 'a list" where
  "sort_desc f xs = rev (sort_key f (rev xs))"

fun is_str :: "json \<Rightarrow> bool" where
  "is_str (JStr s) = True"
| "is_str _ = False"

fun str_of :: "json \<Rightarrow> string" where
  "str_of (JStr s) = s"
| "str_of _ = []"

fun is_num :: "json \<Rightarrow> bool" where
  "is_num (JBool b) = True"
| "is_num (JInt i) = True"
| "is_num (JFloat x) = True"
| "is_num _ = False"

fun num_of :: "json \<Rightarrow> rat" where
  "num_of (JBool b) = (if b then 1 else 0)"
| "num_of (JInt i) = of_int i"
| "num_of (JFloat x) = x"
| "num_of _ = 0"

definition sort_jobs :: "normalized list \<Rightarrow> exn + normalized list" where
  "sort_jobs js =
     (if length js \<le> 1 then Inr js
      else if list_all (\<lambda>j. is_str (date_posted j)) js then
        Inr (sort_desc (\<lambda>j. str_of (date_posted j)) js)
      else if list_all (\<lambda>j. is_num (date_posted j)) js then
        Inr (sort_desc (\<lambda>j. num_of (date_posted j)) js)
      else if list_all (\<lambda>j. date_posted j = JArr []) js then Inr js
      else Inl TypeError)"

text \<open>Lines 59-133.\<close>

definition main :: "pylib \<Rightarrow> env \<Rightarrow> event list \<times> exit_status" where
  "main L E =
     (if API_KEY E = [] then ([], Exit 1)
      else
        let cutoff = clock_start E - CUTOFF_HOURS * 3600000000 in
        case run_searches L E cutoff SEARCHES 0 \<lparr>all_jobs = [], seen_ids = {}\<rparr> of
          (tr, Inl e) \<Rightarrow> (tr, Uncaught e)
        | (tr, Inr st) \<Rightarrow>
            (case sort_jobs (all_jobs st) of
               Inl e \<Rightarrow> (tr, Uncaught e)
             | Inr js \<Rightarrow>
                 (tr @ [WriteFile \<lparr>last_updated = clock_end E, job_count = length js, jobs = js\<rparr>],
                  Exit 0)))"

section \<open>Example inputs\<close>

text \<open>
  A stand-in for the library on the strings of the examples below: what
  \<^verbatim>\<open>datetime.fromisoformat\<close> returns for two timestamps with an offset (aware) and for
  the same two without it (naive), \<^verbatim>\<open>ValueError\<close> for every other string.
\<close>

definition example_lib :: pylib where
  "example_lib =
     \<lparr> fromisoformat = (\<lambda>s.
         if s = ''2024-05-01T12:00:00.000+00:00'' then Inr (Aware 1714564800000000)
         else if s = ''2024-04-20T12:00:00.000+00:00'' then Inr (Aware 1713614400000000)
         else if s = ''2024-05-01T12:00:00'' then Inr (Naive 1714564800000000)
         else if s = ''2024-04-20T12:00:00'' then Inr (Naive 1713614400000000)
         else Inl ValueError),
       py_str = (\<lambda>v. ''?'') \<rparr>"

text \<open>A raw listing with an identifier and a posting timestamp, and a response body.\<close>

definition listing :: "string \<Rightarrow> string \<Rightarrow> json" where
  "listing i posted =
     JObj [(''job_id'', JStr i), (''job_posted_at_datetime_utc'', JStr posted)]"

definition body :: "json list \<Rightarrow> response" where
  "body js = Returns (JObj [(''data'', JArr js)])"

text \<open>
  A run started on 2024-05-02 at 00:00 UTC (so the cutoff is 2024-04-30 at 00:00 UTC),
  with the credential set, and with the answers \<open>r\<close> of the network.
\<close>

definition example_env :: "(nat \<Rightarrow> response) \<Rightarrow> env" where
  "example_env r =
     \<lparr> environ = [''RAPIDAPI_KEY'' \<mapsto> ''k''], respond = r,
       clock_start = 1714608000000000, clock_end = 1714608060000000 \<rparr>"

text \<open>The same run without the credential in the environment.\<close>

definition no_credential_env :: env where
  "no_credential_env =
     (example_env (\<lambda>i. body [listing ''J1'' ''2024-05-01T12:00:00.000Z'']))
       \<lparr>environ := Map.empty\<rparr>"

text \<open>A run in which the fourth request is refused with status 429.\<close>

definition one_failure_env :: env where
  "one_failure_env =
     example_env (\<lambda>i. if i = 3 then Raises (HTTPError 429 ''Too Many Requests'')
        else body [listing ''J1'' ''2024-05-01T12:00:00.000Z''])"

text \<open>The record that \<open>normalize\<close> builds for \<open>listing i posted\<close>.\<close>

definition example_record :: "string \<Rightarrow> string \<Rightarrow> normalized" where
  "example_record i posted =
     \<lparr> jid = JStr i, title = JStr ''Unknown Title'', company = JStr ''Unknown Company'',
       location_str = [], is_remote = JBool False, date_posted = JStr posted, salary = [],
       apply_link = JStr [], description_snippet = JStr [], employer_logo = JStr [] \<rparr>"

text \<open>The requests and pauses of a run that reaches the end of the loop.\<close>

definition all_requests :: "event list" where
  "all_requests = concat (map (\<lambda>s. [HttpRequest s, Sleep 2]) SEARCHES)"

text \<open>The document written at the end of the example runs.\<close>

definition example_output :: "normalized list \<Rightarrow> run_output" where
  "example_output js = \<lparr>last_updated = 1714608060000000, job_count = length js, jobs = js\<rparr>"

text \<open>The first two searches return the same listing; the others fail.\<close>

definition dedup_env :: env where
  "dedup_env =
     example_env (\<lambda>i. if i < 2 then body [listing ''J1'' ''2024-05-01T12:00:00.000Z'']
        else Raises URLError)"

text \<open>The first search returns a listing from twelve days before and a recent one.\<close>

definition recency_env :: env where
  "recency_env =
     example_env (\<lambda>i. if i = 0 then body [listing ''J1'' ''2024-04-20T12:00:00.000Z'',
                                          listing ''J2'' ''2024-05-01T12:00:00.000Z'']
        else Raises URLError)"


text \<open>A listing with an empty identifier, one without identifier, and a regular one.\<close>

definition empty_id_env :: env where
  "empty_id_env =
     example_env (\<lambda>i. if i = 0 then
          body [listing [] ''2024-05-01T12:00:00.000Z'',
                JObj [(''job_posted_at_datetime_utc'', JStr ''2024-05-01T12:00:00.000Z'')],
                listing ''J1'' ''2024-05-01T12:00:00.000Z'']
        else Raises URLError)"

text \<open>Four listings: two with the same timestamp, one with an empty one, one with a word.\<close>

definition unsorted_env :: env where
  "unsorted_env =
     example_env (\<lambda>i. if i = 0 then
          body [listing ''A'' ''2024-05-01T12:00:00.000Z'', listing ''B'' [],
                listing ''C'' ''yesterday'', listing ''D'' ''2024-05-01T12:00:00.000Z'']
        else Raises URLError)"

text \<open>Every search returns a listing whose timestamp has no offset.\<close>

definition naive_env :: env where
  "naive_env = example_env (\<lambda>i. body [listing ''J1'' ''2024-05-01T12:00:00''])"

text \<open>
  Every search returns a listing whose timestamp has no offset and lies twelve days before
  the start of the run.
\<close>

definition naive_stale_env :: env where
  "naive_stale_env = example_env (\<lambda>i. body [listing ''J1'' ''2024-04-20T12:00:00''])"

text \<open>
  The connection of the first request closes before the whole body has arrived:
  \<^verbatim>\<open>resp.read()\<close> raises \<^verbatim>\<open>IncompleteRead\<close>. The other searches return a listing.
\<close>

definition truncated_env :: env where
  "truncated_env =
     example_env (\<lambda>i. if i = 0 then Raises IncompleteRead
        else body [listing ''J1'' ''2024-05-01T12:00:00.000Z''])"

section \<open>Reading a formatted amount\<close>



section \<open>Invariant of the accumulators\<close>

text \<open>
  What holds of \<^verbatim>\<open>all_jobs\<close> and \<^verbatim>\<open>seen_ids\<close> throughout the loop: the accepted
  identifiers are pairwise different as set members, \<^verbatim>\<open>seen_ids\<close> holds exactly them, and
  every accepted listing has a truthy identifier and passed the check of its timestamp.
\<close>

definition accumulators_ok :: "pylib \<Rightarrow> int \<Rightarrow> state \<Rightarrow> bool" where
  "accumulators_ok L c st \<longleftrightarrow>
     distinct (map (\<lambda>j. py_hash (jid j)) (all_jobs st)) \<and>
     seen_ids st = {k. \<exists>j \<in> set (all_jobs st). py_hash (jid j) = Inr k} \<and>
     (\<forall>j \<in> set (all_jobs st).
        truthy (jid j) \<and> posted_before_cutoff L c (date_posted j) = Inr False)"

section \<open>Basic facts\<close>

lemma bnd_eq_Inr: "bnd m f = Inr y \<longleftrightarrow> (\<exists>x. m = Inr x \<and> f x = Inr y)"
  by (cases m) simp_all

lemma fetch_caught: "is_OSError e \<Longrightarrow> fetch_jobs_for_query (Raises e) = Inr (JArr [])"
  by (simp add: fetch_jobs_for_query_def)

lemma fetch_empty_body:
  "fetch_jobs_for_query (Returns (JObj [(''data'', JArr [])])) = Inr (JArr [])"
  by (simp add: fetch_jobs_for_query_def dict_get_def)

text \<open>The loop looks at the network only through what \<open>fetch_jobs_for_query\<close> returns.\<close>

lemma run_searches_cong:
  "(\<And>k. fetch_jobs_for_query (respond E1 k) = fetch_jobs_for_query (respond E2 k)) \<Longrightarrow>
   run_searches L E1 c ss i st = run_searches L E2 c ss i st"
  by (induction ss arbitrary: i st) (simp_all split: sum.splits prod.splits)

lemma main_cong:
  assumes "\<And>k. fetch_jobs_for_query (respond E1 k) = fetch_jobs_for_query (respond E2 k)"
    and "environ E1 = environ E2" "clock_start E1 = clock_start E2" "clock_end E1 = clock_end E2"
  shows "main L E1 = main L E2"
  unfolding main_def API_KEY_def assms(2-) run_searches_cong [OF assms(1)] ..

lemma normalize_fields:
  assumes "normalize L job job_id posted = Inr n"
  shows "jid n = job_id" and "date_posted n = posted"
  using assms by (auto simp: normalize_def bnd_eq_Inr)

text \<open>A step of the inner loop either leaves the accumulators alone or accepts the listing.\<close>

lemma process_job_cases:
  assumes "process_job L c job st = Inr st'"
  shows "st' = st \<or>
    (\<exists>job_id posted k n.
       py_get job ''job_id'' (JStr []) = Inr job_id \<and> truthy job_id \<and>
       py_hash job_id = Inr k \<and> k \<notin> seen_ids st \<and>
       py_get job ''job_posted_at_datetime_utc'' (JStr []) = Inr posted \<and>
       posted_before_cutoff L c posted = Inr False \<and>
       normalize L job job_id posted = Inr n \<and>
       st' = \<lparr>all_jobs = all_jobs st @ [n], seen_ids = insert k (seen_ids st)\<rparr>)"
  using assms by (auto simp: process_job_def bnd_eq_Inr split: if_splits)

text \<open>What every step preserves, both loops preserve.\<close>

lemma process_results_invariant:
  assumes step: "\<And>job st st'. P st \<Longrightarrow> process_job L c job st = Inr st' \<Longrightarrow> P st'"
  shows "P st \<Longrightarrow> process_results L c js st = Inr st' \<Longrightarrow> P st'"
proof (induction js arbitrary: st)
  case Nil
  then show ?case by simp
next
  case (Cons job js)
  from Cons.prems(2) obtain st1 where
    "process_job L c job st = Inr st1" "process_results L c js st1 = Inr st'"
    by (auto simp: bnd_eq_Inr)
  with Cons.IH [of st1] step [OF Cons.prems(1)] show ?case by blast
qed

lemma run_searches_invariant:
  assumes step: "\<And>job st st'. P st \<Longrightarrow> process_job L c job st = Inr st' \<Longrightarrow> P st'"
  shows "P st \<Longrightarrow> run_searches L E c ss i st = (tr, Inr st') \<Longrightarrow> P st'"
proof (induction ss arbitrary: i st tr)
  case Nil
  then show ?case by simp
next
  case (Cons s ss)
  from Cons.prems(2) obtain js st1 tr1 where
    "process_results L c js st = Inr st1" "run_searches L E c ss (Suc i) st1 = (tr1, Inr st')"
    by (auto simp: bnd_eq_Inr split: sum.splits prod.splits)
  note pr = this
  have "P st1"
    by (rule process_results_invariant [where P = P, OF step Cons.prems(1) pr(1)])
  then show ?case
    using pr(2) by (rule Cons.IH)
qed

text \<open>The file is written by \<open>main\<close> only, after the loop and the sort.\<close>

lemma run_searches_no_write:
  "run_searches L E c ss i st = (tr, r) \<Longrightarrow> WriteFile out \<notin> set tr"
  by (induction ss arbitrary: i st tr r) (auto split: sum.splits prod.splits)

lemma main_written:
  assumes "WriteFile out \<in> set (fst (main L E))"
  shows "\<exists>tr st.
     run_searches L E (clock_start E - CUTOFF_HOURS * 3600000000) SEARCHES 0
       \<lparr>all_jobs = [], seen_ids = {}\<rparr> = (tr, Inr st) \<and>
     sort_jobs (all_jobs st) = Inr (jobs out) \<and> snd (main L E) = Exit 0 \<and>
     job_count out = length (jobs out) \<and> environ E ''RAPIDAPI_KEY'' \<noteq> None"
proof -
  let ?r = "run_searches L E (clock_start E - CUTOFF_HOURS * 3600000000) SEARCHES 0
       \<lparr>all_jobs = [], seen_ids = {}\<rparr>"
  obtain tr r where r: "?r = (tr, r)" by (cases ?r)
  then have "WriteFile out \<notin> set tr" by (rule run_searches_no_write)
  with assms r show ?thesis
    by (auto simp: main_def API_KEY_def split: if_splits sum.splits option.splits)
qed

lemma sort_desc_mset: "mset (sort_desc f xs) = mset xs"
  by (simp add: sort_desc_def)

lemma sort_jobs_mset: "sort_jobs js = Inr js' \<Longrightarrow> mset js' = mset js"
  by (auto simp: sort_jobs_def sort_desc_mset split: if_splits)

lemma accumulators_ok_init: "accumulators_ok L c \<lparr>all_jobs = [], seen_ids = {}\<rparr>"
  by (simp add: accumulators_ok_def)

lemma accumulators_ok_step:
  assumes "accumulators_ok L c st" "process_job L c job st = Inr st'"
  shows "accumulators_ok L c st'"
proof -
  from process_job_cases [OF assms(2)] show ?thesis
  proof
    assume "st' = st"
    with assms(1) show ?thesis by simp
  next
    assume "\<exists>job_id posted k n.
       py_get job ''job_id'' (JStr []) = Inr job_id \<and> truthy job_id \<and>
       py_hash job_id = Inr k \<and> k \<notin> seen_ids st \<and>
       py_get job ''job_posted_at_datetime_utc'' (JStr []) = Inr posted \<and>
       posted_before_cutoff L c posted = Inr False \<and>
       normalize L job job_id posted = Inr n \<and>
       st' = \<lparr>all_jobs = all_jobs st @ [n], seen_ids = insert k (seen_ids st)\<rparr>"
    then obtain job_id posted k n where
      t: "truthy job_id" and h: "py_hash job_id = Inr k" and k: "k \<notin> seen_ids st" and
      p: "posted_before_cutoff L c posted = Inr False" and
      n: "normalize L job job_id posted = Inr n" and
      st': "st' = \<lparr>all_jobs = all_jobs st @ [n], seen_ids = insert k (seen_ids st)\<rparr>"
      by blast
    from n have f: "jid n = job_id" "date_posted n = posted"
      by (rule normalize_fields)+
    from assms(1) k have "Inr k \<notin> (\<lambda>j. py_hash (jid j)) ` set (all_jobs st)"
      by (auto simp: accumulators_ok_def)
    with assms(1) t h p f show ?thesis
      unfolding st' accumulators_ok_def by auto
  qed
qed

lemma accumulators_ok_loop:
  "run_searches L E c ss i \<lparr>all_jobs = [], seen_ids = {}\<rparr> = (tr, Inr st) \<Longrightarrow>
   accumulators_ok L c st"
  by (rule run_searches_invariant [where P = "accumulators_ok L c", OF accumulators_ok_step
        accumulators_ok_init])

lemma accumulators_ok_output:
  assumes "WriteFile out \<in> set (fst (main L E))"
  shows "accumulators_ok L (clock_start E - CUTOFF_HOURS * 3600000000)
           \<lparr>all_jobs = jobs out, seen_ids = {k. \<exists>j \<in> set (jobs out). py_hash (jid j) = Inr k}\<rparr>"
proof -
  from main_written [OF assms] obtain tr st where
    r: "run_searches L E (clock_start E - CUTOFF_HOURS * 3600000000) SEARCHES 0
         \<lparr>all_jobs = [], seen_ids = {}\<rparr> = (tr, Inr st)" and
    s: "sort_jobs (all_jobs st) = Inr (jobs out)"
    by blast
  from s have m: "mset (jobs out) = mset (all_jobs st)" by (rule sort_jobs_mset)
  then have e: "set (jobs out) = set (all_jobs st)" by (rule mset_eq_setD)
  from m have "mset (map (\<lambda>j. py_hash (jid j)) (jobs out)) =
               mset (map (\<lambda>j. py_hash (jid j)) (all_jobs st))"
    by (metis mset_map)
  then have d: "distinct (map (\<lambda>j. py_hash (jid j)) (jobs out)) \<longleftrightarrow>
                distinct (map (\<lambda>j. py_hash (jid j)) (all_jobs st))"
    by (rule mset_eq_imp_distinct_iff)
  from accumulators_ok_loop [OF r] d e show ?thesis
    by (simp add: accumulators_ok_def)
qed

lemma process_job_seen:
  assumes "py_get job ''job_id'' (JStr []) = Inr v" "py_hash v = Inr k" "k \<in> seen_ids st"
  shows "process_job L c job st = Inr st"
  using assms by (simp add: process_job_def)

lemma stale_is_before_cutoff:
  assumes "s \<noteq> []" "fromisoformat L (replace_Z s) = Inr (Aware t)"
  shows "posted_before_cutoff L c (JStr s) = Inr (t < c)"
  using assms by (simp add: posted_before_cutoff_def)

lemma process_job_stale:
  assumes "py_get job ''job_posted_at_datetime_utc'' (JStr []) = Inr (JStr s)" "s \<noteq> []"
    "fromisoformat L (replace_Z s) = Inr (Aware t)" "t < c"
  shows "process_job L c job st = Inr st' \<Longrightarrow> st' = st"
    and "py_get job ''job_id'' (JStr []) = Inr v \<Longrightarrow> py_hash v = Inr k \<Longrightarrow>
         process_job L c job st = Inr st"
  using assms stale_is_before_cutoff [OF assms(2,3), of c]
  by (auto simp: process_job_def bnd_eq_Inr split: if_splits)

lemma passed_check_is_instant:
  assumes "posted_before_cutoff L c (JStr s) = Inr False" "s \<noteq> []"
    "fromisoformat L (replace_Z s) = Inr dt"
  shows "\<exists>t. dt = Aware t \<and> c \<le> t"
  using assms by (cases dt) (simp_all add: posted_before_cutoff_def)


lemma dict_get_missing:
  assumes "map_of kvs k = None"
  shows "dict_get kvs k d = d"
proof -
  from assms have "k \<notin> fst ` set kvs" by (simp add: map_of_eq_None_iff)
  then have "map_of (rev kvs) k = None" by (simp add: map_of_eq_None_iff)
  then show ?thesis by (simp add: dict_get_def)
qed

lemma dict_get_last: "dict_get (kvs @ [(k, v)]) k d = v"
  by (simp add: dict_get_def)

lemma process_job_falsy_id:
  "py_get job ''job_id'' (JStr []) = Inr v \<Longrightarrow> \<not> truthy v \<Longrightarrow> process_job L c job st = Inr st"
  by (simp add: process_job_def)

lemma sort_desc_sorted: "sorted_wrt (\<lambda>a b. f b \<le> f a) (sort_desc f xs)"
proof -
  have "sorted (map f (sort_key f (rev xs)))" by (rule sorted_sort_key)
  then have "sorted_wrt (\<lambda>a b. f a \<le> f b) (sort_key f (rev xs))"
    by (simp add: sorted_wrt_map)
  then show ?thesis
    by (simp add: sort_desc_def sorted_wrt_rev)
qed

lemma sort_desc_stable:
  "filter (\<lambda>x. f x = k) (sort_desc f xs) = filter (\<lambda>x. f x = k) xs"
  by (simp add: sort_desc_def rev_filter [symmetric] sort_key_stable)

lemma sorted_wrt_all_equal:
  "(\<And>x. x \<in> set xs \<Longrightarrow> f x = c) \<Longrightarrow> sorted_wrt (\<lambda>a b. f b \<le> (f a :: 'k :: order)) xs"
  by (induction xs) auto

lemma sort_jobs_sorted:
  assumes "sort_jobs js = Inr js'"
  shows "sorted_wrt (\<lambda>a b. str_of (date_posted b) \<le> str_of (date_posted a)) js'"
proof -
  have nonstr: "str_of v = []" if "is_num v \<or> v = JArr []" for v
    using that by (cases v) auto
  consider (short) "length js \<le> 1" "js' = js"
    | (strs) "js' = sort_desc (\<lambda>j. str_of (date_posted j)) js"
    | (nums) "list_all (\<lambda>j. is_num (date_posted j)) js" "mset js' = mset js"
    | (arrs) "list_all (\<lambda>j. date_posted j = JArr []) js" "js' = js"
    using assms sort_jobs_mset [OF assms]
    by (auto simp: sort_jobs_def split: if_splits)
  then show ?thesis
  proof cases
    case short
    then show ?thesis by (cases js) (auto simp: Suc_le_eq)
  next
    case strs
    then show ?thesis by (simp add: sort_desc_sorted)
  next
    case nums
    then have "\<And>x. x \<in> set js' \<Longrightarrow> str_of (date_posted x) = []"
      by (metis list_all_iff mset_eq_setD nonstr)
    then show ?thesis by (rule sorted_wrt_all_equal)
  next
    case arrs
    then have "\<And>x. x \<in> set js' \<Longrightarrow> str_of (date_posted x) = []"
      by (simp add: list_all_iff)
    then show ?thesis by (rule sorted_wrt_all_equal)
  qed
qed

lemma filter_key_stable:
  assumes "filter (\<lambda>x. g (f x) = g k) ys = filter (\<lambda>x. g (f x) = g k) xs"
  shows "filter (\<lambda>x. f x = k) ys = filter (\<lambda>x. f x = k) xs"
proof -
  have "filter (\<lambda>x. f x = k) zs = filter (\<lambda>x. f x = k) (filter (\<lambda>x. g (f x) = g k) zs)" for zs
    by (induction zs) auto
  with assms show ?thesis by metis
qed

lemma sort_jobs_stable:
  assumes "sort_jobs js = Inr js'"
  shows "filter (\<lambda>j. date_posted j = k) js' = filter (\<lambda>j. date_posted j = k) js"
  using assms
  by (auto simp: sort_jobs_def split: if_splits
      intro: filter_key_stable [where g = str_of and f = date_posted, OF sort_desc_stable]
             filter_key_stable [where g = num_of and f = date_posted, OF sort_desc_stable])









text \<open>Groups of three from the right.\<close>

lemma commas_short: "length ds \<le> 3 \<Longrightarrow> commas ds = ds"
proof -
  assume "length ds \<le> 3"
  then have "length (rev ds) \<le> 3" by simp
  then have "group3 (rev ds) = rev ds"
    by (cases "rev ds" rule: group3.cases) simp_all
  then show ?thesis by (simp add: commas_def)
qed

lemma commas_long:
  assumes "3 < length ds"
  shows "commas ds =
     commas (take (length ds - 3) ds) @ CHR '','' # drop (length ds - 3) ds"
proof -
  define hd3 where "hd3 = take (length ds - 3) ds"
  define tl3 where "tl3 = drop (length ds - 3) ds"
  have ds: "ds = hd3 @ tl3" by (simp add: hd3_def tl3_def)
  from assms have "length tl3 = 3" "hd3 \<noteq> []" by (auto simp: hd3_def tl3_def)
  then obtain a b c where tl3: "tl3 = [a, b, c]"
    by (cases tl3; cases "tl tl3"; cases "tl (tl tl3)") auto
  from \<open>hd3 \<noteq> []\<close> obtain d r where r: "rev hd3 = d # r" by (cases "rev hd3") auto
  have "commas ds = rev (group3 (c # b # a # d # r))"
    by (simp add: commas_def ds tl3 r)
  also have "\<dots> = rev (group3 (d # r)) @ [CHR '','', a, b, c]" by simp
  also have "\<dots> = commas hd3 @ CHR '','' # tl3" by (simp add: commas_def r tl3)
  finally show ?thesis by (simp add: hd3_def tl3_def)
qed






text \<open>The rounding of \<open>format_float\<close> is to a nearest integer.\<close>

lemma round_half_even_near: "\<bar>of_int (round_half_even x) - x\<bar> \<le> 1 / 2"
proof -
  have "of_int \<lfloor>x\<rfloor> \<le> x" "x < of_int \<lfloor>x\<rfloor> + 1" by linarith+
  then show ?thesis
    by (auto simp: round_half_even_def Let_def abs_le_iff)
qed

lemma naive_timestamp_raises:
  "s \<noteq> [] \<Longrightarrow> fromisoformat L (replace_Z s) = Inr (Naive t) \<Longrightarrow>
   posted_before_cutoff L c (JStr s) = Inl TypeError"
  by (simp add: posted_before_cutoff_def)

lemma unparseable_timestamp_passes:
  "fromisoformat L (replace_Z s) = Inl e \<Longrightarrow> is_ValueError e \<Longrightarrow>
   posted_before_cutoff L c (JStr s) = Inr False"
  by (simp add: posted_before_cutoff_def)

section \<open>The claims\<close>

text \<open>
  C6. If \<^verbatim>\<open>RAPIDAPI_KEY\<close> is not set in the process environment, the run makes no
  request, takes no pause and writes no file, and ends with exit status 1.
\<close>

theorem missing_credential_exits:
  "environ E ''RAPIDAPI_KEY'' = None \<Longrightarrow> main L E = ([], Exit 1)"
  by (simp add: main_def API_KEY_def)

theorem missing_credential_exits_witness:
  "environ no_credential_env ''RAPIDAPI_KEY'' = None \<and>
   main example_lib no_credential_env = ([], Exit 1)"
  using missing_credential_exits [of no_credential_env example_lib]
  by (simp add: no_credential_env_def)

text \<open>
  C7. A transport-level failure that is not an \<^verbatim>\<open>OSError\<close> escapes both handlers: when the
  connection closes before the whole body has arrived, \<^verbatim>\<open>resp.read()\<close> raises
  \<^verbatim>\<open>IncompleteRead\<close>, \<open>fetch_jobs_for_query\<close> raises it too instead of returning the empty
  list, and the run ends right after that request without writing the file.
\<close>

theorem truncated_body_aborts_run:
  "\<not> is_OSError IncompleteRead \<and>
   fetch_jobs_for_query (Raises IncompleteRead) = Inl IncompleteRead \<and>
   main example_lib truncated_env = ([HttpRequest (hd SEARCHES)], Uncaught IncompleteRead)"
  by code_simp

text \<open>
  For the failures that the handlers do catch, which are the \<^verbatim>\<open>OSError\<close>s (an HTTP error
  status, \<^verbatim>\<open>URLError\<close>, a timeout, a connection reset), \<open>fetch_jobs_for_query\<close> returns the
  empty list instead of raising; the loop makes the request, pauses, leaves the
  accumulators as they are and goes on with the remaining searches; and the whole run, the
  write of the file included, is the run in which that search had answered with an empty
  \<^verbatim>\<open>data\<close> list.
\<close>

lemma failed_search_is_empty_result:
  assumes "is_OSError e"
  shows "fetch_jobs_for_query (Raises e) = Inr (JArr []) \<and>
         (respond E i = Raises e \<longrightarrow>
            run_searches L E c (s # ss) i st =
              (case run_searches L E c ss (Suc i) st of
                 (tr, r) \<Rightarrow> (HttpRequest s # Sleep 2 # tr, r))) \<and>
         main L (E\<lparr>respond := (respond E)(i := Raises e)\<rparr>) =
           main L (E\<lparr>respond := (respond E)(i := Returns (JObj [(''data'', JArr [])]))\<rparr>)"
proof (intro conjI impI)
  show "fetch_jobs_for_query (Raises e) = Inr (JArr [])"
    using assms by (rule fetch_caught)
next
  assume "respond E i = Raises e"
  then show "run_searches L E c (s # ss) i st =
      (case run_searches L E c ss (Suc i) st of (tr, r) \<Rightarrow> (HttpRequest s # Sleep 2 # tr, r))"
    using assms by (simp add: fetch_caught)
next
  show "main L (E\<lparr>respond := (respond E)(i := Raises e)\<rparr>) =
        main L (E\<lparr>respond := (respond E)(i := Returns (JObj [(''data'', JArr [])]))\<rparr>)"
    by (rule main_cong) (simp_all add: fetch_caught [OF assms] fetch_empty_body)
qed

lemma failed_search_is_empty_result_witness:
  "is_OSError (HTTPError 429 ''Too Many Requests'') \<and>
   respond one_failure_env 3 = Raises (HTTPError 429 ''Too Many Requests'') \<and>
   fetch_jobs_for_query (Raises (HTTPError 429 ''Too Many Requests'')) = Inr (JArr []) \<and>
   main example_lib one_failure_env =
     main example_lib
       (one_failure_env\<lparr>respond :=
          (respond one_failure_env)(3 := Returns (JObj [(''data'', JArr [])]))\<rparr>) \<and>
   snd (main example_lib one_failure_env) = Exit 0"
proof -
  have e: "is_OSError (HTTPError 429 ''Too Many Requests'')" by simp
  have r: "respond one_failure_env 3 = Raises (HTTPError 429 ''Too Many Requests'')"
    by (simp add: one_failure_env_def example_env_def)
  have u: "one_failure_env\<lparr>respond :=
      (respond one_failure_env)(3 := Raises (HTTPError 429 ''Too Many Requests''))\<rparr> =
      one_failure_env"
    using r by (simp add: fun_upd_idem)
  have x: "snd (main example_lib one_failure_env) = Exit 0"
    by code_simp
  show ?thesis
    using failed_search_is_empty_result [OF e, of one_failure_env 3 example_lib]
      r u x by simp
qed

text \<open>
  A run in which every search fails in this way still writes the file, with no jobs; and
  the run with one refused request writes the listing of the other searches.
\<close>

lemma run_searches_all_fail:
  assumes "\<And>i. \<exists>e. respond E i = Raises e \<and> is_OSError e"
  shows "run_searches L E c ss i st = (concat (map (\<lambda>s. [HttpRequest s, Sleep 2]) ss), Inr st)"
proof (induction ss arbitrary: i)
  case Nil
  show ?case by simp
next
  case (Cons s ss)
  from assms [of i] obtain e where "respond E i = Raises e" "is_OSError e" by blast
  then show ?case by (simp add: fetch_caught Cons.IH)
qed

lemma all_failed_searches_still_write:
  assumes "environ E ''RAPIDAPI_KEY'' = Some k" "k \<noteq> []"
    and "\<And>i. \<exists>e. respond E i = Raises e \<and> is_OSError e"
  shows "main L E =
     (all_requests @ [WriteFile \<lparr>last_updated = clock_end E, job_count = 0, jobs = []\<rparr>],
      Exit 0)"
  using assms(1,2)
  by (simp add: main_def API_KEY_def run_searches_all_fail [OF assms(3)] all_requests_def
      sort_jobs_def)

lemma one_failure_run:
  "main example_lib one_failure_env =
     (all_requests @
        [WriteFile (example_output [example_record ''J1'' ''2024-05-01T12:00:00.000Z''])],
      Exit 0)"
  by code_simp

text \<open>
  C9. The handlers of \<open>fetch_jobs_for_query\<close> do not cover a body that is not JSON
  (\<^verbatim>\<open>JSONDecodeError\<close>) nor a JSON value that is not an object (\<^verbatim>\<open>AttributeError\<close> at
  \<^verbatim>\<open>data.get\<close>): the exception leaves the function, and the loop ends with it right after
  the request.
\<close>

theorem malformed_body_raises:
  "fetch_jobs_for_query (Raises JSONDecodeError) = Inl JSONDecodeError \<and>
   (\<not> is_dict data \<longrightarrow> fetch_jobs_for_query (Returns data) = Inl AttributeError) \<and>
   (respond E i = Raises JSONDecodeError \<longrightarrow>
      run_searches L E c (s # ss) i st = ([HttpRequest s], Inl JSONDecodeError)) \<and>
   (respond E i = Returns data \<and> \<not> is_dict data \<longrightarrow>
      run_searches L E c (s # ss) i st = ([HttpRequest s], Inl AttributeError))"
  by (cases data) (simp_all add: fetch_jobs_for_query_def)

theorem malformed_body_raises_witness:
  "\<not> is_dict (JArr []) \<and> fetch_jobs_for_query (Returns (JArr [])) = Inl AttributeError \<and>
   main example_lib (example_env (\<lambda>i. Returns (JArr []))) =
     ([HttpRequest (hd SEARCHES)], Uncaught AttributeError) \<and>
   main example_lib (example_env (\<lambda>i. Raises JSONDecodeError)) =
     ([HttpRequest (hd SEARCHES)], Uncaught JSONDecodeError)"
  using
    malformed_body_raises [of "JArr []" "example_env (\<lambda>i. Returns (JArr []))" 0 example_lib
      "clock_start (example_env (\<lambda>i. Returns (JArr []))) - CUTOFF_HOURS * 3600000000"
      "hd SEARCHES" "tl SEARCHES" "\<lparr>all_jobs = [], seen_ids = {}\<rparr>"]
    malformed_body_raises [of "JArr []" "example_env (\<lambda>i. Raises JSONDecodeError)" 0 example_lib
      "clock_start (example_env (\<lambda>i. Raises JSONDecodeError)) - CUTOFF_HOURS * 3600000000"
      "hd SEARCHES" "tl SEARCHES" "\<lparr>all_jobs = [], seen_ids = {}\<rparr>"]
  by (simp add: main_def API_KEY_def example_env_def SEARCHES_def)

text \<open>
  C1. A listing whose identifier is already in \<^verbatim>\<open>seen_ids\<close> is skipped, and in the document
  that a run writes the identifiers of the listings are pairwise different, both as
  values and as members of a Python set (where \<^verbatim>\<open>True\<close>, \<^verbatim>\<open>1\<close> and \<^verbatim>\<open>1.0\<close> are the same).
\<close>

theorem output_ids_distinct:
  "(py_get job ''job_id'' (JStr []) = Inr v \<and> py_hash v = Inr k \<and> k \<in> seen_ids st \<longrightarrow>
      process_job L c job st = Inr st) \<and>
   (WriteFile out \<in> set (fst (main L E)) \<longrightarrow>
      distinct (map jid (jobs out)) \<and> distinct (map (\<lambda>j. py_hash (jid j)) (jobs out)))"
proof (intro conjI impI)
  assume "py_get job ''job_id'' (JStr []) = Inr v \<and> py_hash v = Inr k \<and> k \<in> seen_ids st"
  then show "process_job L c job st = Inr st"
    by (simp add: process_job_seen)
next
  assume w: "WriteFile out \<in> set (fst (main L E))"
  from accumulators_ok_output [OF w]
  show d: "distinct (map (\<lambda>j. py_hash (jid j)) (jobs out))"
    by (simp add: accumulators_ok_def)
  have "map (\<lambda>j. py_hash (jid j)) (jobs out) = map py_hash (map jid (jobs out))"
    by simp
  with d show "distinct (map jid (jobs out))"
    by (metis distinct_map)
qed

theorem output_ids_distinct_witness:
  "main example_lib dedup_env =
     (all_requests @
        [WriteFile (example_output [example_record ''J1'' ''2024-05-01T12:00:00.000Z''])],
      Exit 0) \<and>
   distinct (map jid (jobs (example_output [example_record ''J1'' ''2024-05-01T12:00:00.000Z'']))) \<and>
   KStr ''J1'' \<in> seen_ids \<lparr>all_jobs = [example_record ''J1'' ''2024-05-01T12:00:00.000Z''],
                            seen_ids = {KStr ''J1''}\<rparr> \<and>
   process_job example_lib 0 (listing ''J1'' ''2024-05-01T12:00:00.000Z'')
     \<lparr>all_jobs = [example_record ''J1'' ''2024-05-01T12:00:00.000Z''], seen_ids = {KStr ''J1''}\<rparr> =
     Inr \<lparr>all_jobs = [example_record ''J1'' ''2024-05-01T12:00:00.000Z''],
          seen_ids = {KStr ''J1''}\<rparr>"
proof -
  have m: "main example_lib dedup_env =
     (all_requests @
        [WriteFile (example_output [example_record ''J1'' ''2024-05-01T12:00:00.000Z''])],
      Exit 0)"
    by code_simp
  then have w: "WriteFile (example_output [example_record ''J1'' ''2024-05-01T12:00:00.000Z''])
      \<in> set (fst (main example_lib dedup_env))"
    by simp
  have g: "py_get (listing ''J1'' ''2024-05-01T12:00:00.000Z'') ''job_id'' (JStr []) =
      Inr (JStr ''J1'')"
    by (simp add: listing_def dict_get_def)
  note t = output_ids_distinct
    [where out = "example_output [example_record ''J1'' ''2024-05-01T12:00:00.000Z'']"
       and L = example_lib and E = dedup_env and c = 0
       and job = "listing ''J1'' ''2024-05-01T12:00:00.000Z''" and v = "JStr ''J1''"
       and k = "KStr ''J1''"
       and st = "\<lparr>all_jobs = [example_record ''J1'' ''2024-05-01T12:00:00.000Z''],
                   seen_ids = {KStr ''J1''}\<rparr>"]
  from t w
  have 1: "distinct (map jid (jobs (example_output [example_record ''J1'' ''2024-05-01T12:00:00.000Z''])))"
    by blast
  from t g
  have 2: "process_job example_lib 0 (listing ''J1'' ''2024-05-01T12:00:00.000Z'')
     \<lparr>all_jobs = [example_record ''J1'' ''2024-05-01T12:00:00.000Z''], seen_ids = {KStr ''J1''}\<rparr> =
     Inr \<lparr>all_jobs = [example_record ''J1'' ''2024-05-01T12:00:00.000Z''],
          seen_ids = {KStr ''J1''}\<rparr>"
    by simp
  from m 1 2 show ?thesis by simp
qed

text \<open>
  C2. A timestamp without offset parses (to a naive datetime), and a listing that carries
  one from before the cutoff is not discarded: the comparison with the cutoff raises
  \<^verbatim>\<open>TypeError\<close> (the defect of C3), the step raises and the run ends without writing.
\<close>

theorem naive_stale_timestamp_not_discarded:
  "fromisoformat example_lib (replace_Z ''2024-04-20T12:00:00'') = Inr (Naive 1713614400000000) \<and>
   1713614400000000 < clock_start naive_stale_env - CUTOFF_HOURS * 3600000000 \<and>
   process_job example_lib (clock_start naive_stale_env - CUTOFF_HOURS * 3600000000)
     (listing ''J1'' ''2024-04-20T12:00:00'') \<lparr>all_jobs = [], seen_ids = {}\<rparr> = Inl TypeError \<and>
   main example_lib naive_stale_env = ([HttpRequest (hd SEARCHES), Sleep 2], Uncaught TypeError)"
  by code_simp

text \<open>
  For a timestamp that parses to an instant the check is as specified. A listing whose
  timestamp is a non-empty string that parses (after the replacement of \<^verbatim>\<open>Z\<close>) to an
  instant before the cutoff is not accepted: a step that returns leaves the accumulators
  as they are, and it does return when the identifier is hashable. In the document that a
  run writes, every listing whose \<^verbatim>\<open>date_posted\<close> parses has an instant not before the
  start of the run minus 48 hours.
\<close>

lemma stale_listing_discarded:
  "(py_get job ''job_posted_at_datetime_utc'' (JStr []) = Inr (JStr s) \<and> s \<noteq> [] \<and>
    fromisoformat L (replace_Z s) = Inr (Aware t) \<and> t < c \<longrightarrow>
      (process_job L c job st = Inr st' \<longrightarrow> st' = st) \<and>
      (py_get job ''job_id'' (JStr []) = Inr v \<and> py_hash v = Inr k \<longrightarrow>
         process_job L c job st = Inr st)) \<and>
   (WriteFile out \<in> set (fst (main L E)) \<longrightarrow>
      (\<forall>j \<in> set (jobs out). \<forall>s dt.
         date_posted j = JStr s \<and> s \<noteq> [] \<and> fromisoformat L (replace_Z s) = Inr dt \<longrightarrow>
         (\<exists>t. dt = Aware t \<and> clock_start E - 48 * 3600 * 1000000 \<le> t)))"
proof (intro conjI impI ballI allI)
  assume a: "py_get job ''job_posted_at_datetime_utc'' (JStr []) = Inr (JStr s) \<and> s \<noteq> [] \<and>
    fromisoformat L (replace_Z s) = Inr (Aware t) \<and> t < c"
  { assume "process_job L c job st = Inr st'"
    with a show "st' = st" by (blast dest: process_job_stale(1)) }
  { assume "py_get job ''job_id'' (JStr []) = Inr v \<and> py_hash v = Inr k"
    with a show "process_job L c job st = Inr st" by (blast intro: process_job_stale(2)) }
next
  fix j s dt
  assume w: "WriteFile out \<in> set (fst (main L E))" and j: "j \<in> set (jobs out)"
    and d: "date_posted j = JStr s \<and> s \<noteq> [] \<and> fromisoformat L (replace_Z s) = Inr dt"
  from accumulators_ok_output [OF w] j
  have "posted_before_cutoff L (clock_start E - CUTOFF_HOURS * 3600000000) (date_posted j) =
      Inr False"
    by (simp add: accumulators_ok_def)
  with d passed_check_is_instant [of L "clock_start E - CUTOFF_HOURS * 3600000000" s dt]
  show "\<exists>t. dt = Aware t \<and> clock_start E - 48 * 3600 * 1000000 \<le> t"
    by (simp add: CUTOFF_HOURS_def)
qed

lemma stale_listing_discarded_witness:
  "main example_lib recency_env =
     (all_requests @
        [WriteFile (example_output [example_record ''J2'' ''2024-05-01T12:00:00.000Z''])],
      Exit 0) \<and>
   fromisoformat example_lib (replace_Z ''2024-04-20T12:00:00.000Z'') = Inr (Aware 1713614400000000) \<and>
   1713614400000000 < clock_start recency_env - 48 * 3600 * 1000000 \<and>
   process_job example_lib (clock_start recency_env - 48 * 3600 * 1000000)
     (listing ''J1'' ''2024-04-20T12:00:00.000Z'') \<lparr>all_jobs = [], seen_ids = {}\<rparr> =
     Inr \<lparr>all_jobs = [], seen_ids = {}\<rparr> \<and>
   fromisoformat example_lib (replace_Z ''2024-05-01T12:00:00.000Z'') = Inr (Aware 1714564800000000) \<and>
   clock_start recency_env - 48 * 3600 * 1000000 \<le> 1714564800000000"
proof -
  have m: "main example_lib recency_env =
     (all_requests @
        [WriteFile (example_output [example_record ''J2'' ''2024-05-01T12:00:00.000Z''])],
      Exit 0)"
    by code_simp
  then have w: "WriteFile (example_output [example_record ''J2'' ''2024-05-01T12:00:00.000Z''])
      \<in> set (fst (main example_lib recency_env))"
    by simp
  have p: "fromisoformat example_lib (replace_Z ''2024-05-01T12:00:00.000Z'') =
      Inr (Aware 1714564800000000)"
    by (simp add: example_lib_def replace_Z_def)
  have q: "fromisoformat example_lib (replace_Z ''2024-04-20T12:00:00.000Z'') =
      Inr (Aware 1713614400000000)"
    by (simp add: example_lib_def replace_Z_def)
  have c: "(1713614400000000::int) < clock_start recency_env - 48 * 3600 * 1000000"
    by (simp add: recency_env_def example_env_def)
  have g: "py_get (listing ''J1'' ''2024-04-20T12:00:00.000Z'') ''job_posted_at_datetime_utc'' (JStr [])
      = Inr (JStr ''2024-04-20T12:00:00.000Z'')"
    "py_get (listing ''J1'' ''2024-04-20T12:00:00.000Z'') ''job_id'' (JStr []) = Inr (JStr ''J1'')"
    by (simp_all add: listing_def dict_get_def)
  note t = stale_listing_discarded
    [where L = example_lib and E = recency_env
       and out = "example_output [example_record ''J2'' ''2024-05-01T12:00:00.000Z'']"
       and job = "listing ''J1'' ''2024-04-20T12:00:00.000Z''"
       and s = "''2024-04-20T12:00:00.000Z''" and t = 1713614400000000
       and c = "clock_start recency_env - 48 * 3600 * 1000000"
       and v = "JStr ''J1''" and k = "KStr ''J1''" and st = "\<lparr>all_jobs = [], seen_ids = {}\<rparr>"]
  from t g q c have 1: "process_job example_lib (clock_start recency_env - 48 * 3600 * 1000000)
     (listing ''J1'' ''2024-04-20T12:00:00.000Z'') \<lparr>all_jobs = [], seen_ids = {}\<rparr> =
     Inr \<lparr>all_jobs = [], seen_ids = {}\<rparr>"
    by simp
  from t w p have 2: "clock_start recency_env - 48 * 3600 * 1000000 \<le> 1714564800000000"
    by (simp add: example_output_def example_record_def)
  from m q c 1 p 2 show ?thesis by simp
qed

text \<open>
  C5. The list of the document that a run writes is a rearrangement of the accepted
  listings, in non-increasing order of the \<^verbatim>\<open>date_posted\<close> string (the empty string, the
  least one, comes last), and listings with the same \<^verbatim>\<open>date_posted\<close> keep the order in
  which they were accepted.
\<close>

theorem output_sorted_descending:
  assumes "WriteFile out \<in> set (fst (main L E))"
  shows "\<exists>tr st.
     run_searches L E (clock_start E - CUTOFF_HOURS * 3600000000) SEARCHES 0
       \<lparr>all_jobs = [], seen_ids = {}\<rparr> = (tr, Inr st) \<and>
     mset (jobs out) = mset (all_jobs st) \<and>
     sorted_wrt (\<lambda>a b. str_of (date_posted b) \<le> str_of (date_posted a)) (jobs out) \<and>
     (\<forall>k. filter (\<lambda>j. date_posted j = k) (jobs out) =
          filter (\<lambda>j. date_posted j = k) (all_jobs st))"
proof -
  from main_written [OF assms] obtain tr st where
    r: "run_searches L E (clock_start E - CUTOFF_HOURS * 3600000000) SEARCHES 0
         \<lparr>all_jobs = [], seen_ids = {}\<rparr> = (tr, Inr st)" and
    s: "sort_jobs (all_jobs st) = Inr (jobs out)"
    by blast
  from s have "mset (jobs out) = mset (all_jobs st)" by (rule sort_jobs_mset)
  moreover from s
  have "sorted_wrt (\<lambda>a b. str_of (date_posted b) \<le> str_of (date_posted a)) (jobs out)"
    by (rule sort_jobs_sorted)
  moreover from s have "\<forall>k. filter (\<lambda>j. date_posted j = k) (jobs out) =
      filter (\<lambda>j. date_posted j = k) (all_jobs st)"
    by (simp add: sort_jobs_stable)
  ultimately show ?thesis using r by blast
qed

theorem output_sorted_descending_witness:
  "main example_lib unsorted_env =
     (all_requests @
        [WriteFile (example_output
           [example_record ''C'' ''yesterday'',
            example_record ''A'' ''2024-05-01T12:00:00.000Z'',
            example_record ''D'' ''2024-05-01T12:00:00.000Z'',
            example_record ''B'' []])],
      Exit 0) \<and>
   sorted_wrt (\<lambda>a b. str_of (date_posted b) \<le> str_of (date_posted a))
     (jobs (example_output
           [example_record ''C'' ''yesterday'',
            example_record ''A'' ''2024-05-01T12:00:00.000Z'',
            example_record ''D'' ''2024-05-01T12:00:00.000Z'',
            example_record ''B'' []]))"
proof -
  have m: "main example_lib unsorted_env =
     (all_requests @
        [WriteFile (example_output
           [example_record ''C'' ''yesterday'',
            example_record ''A'' ''2024-05-01T12:00:00.000Z'',
            example_record ''D'' ''2024-05-01T12:00:00.000Z'',
            example_record ''B'' []])],
      Exit 0)"
    by code_simp
  then have "WriteFile (example_output
           [example_record ''C'' ''yesterday'',
            example_record ''A'' ''2024-05-01T12:00:00.000Z'',
            example_record ''D'' ''2024-05-01T12:00:00.000Z'',
            example_record ''B'' []]) \<in> set (fst (main example_lib unsorted_env))"
    by simp
  from output_sorted_descending [OF this] m show ?thesis by blast
qed



text \<open>
  C10. A listing without \<^verbatim>\<open>job_id\<close> reads as one whose \<^verbatim>\<open>job_id\<close> is the empty string; such
  a listing is skipped with the accumulators unchanged, the empty string never enters
  \<^verbatim>\<open>seen_ids\<close>, and no listing of the written document has it as identifier.
\<close>

theorem empty_id_is_missing_id:
  "(map_of kvs ''job_id'' = None \<longrightarrow>
      py_get (JObj kvs) ''job_id'' (JStr []) = Inr (JStr [])) \<and>
   py_get (JObj (kvs @ [(''job_id'', JStr [])])) ''job_id'' (JStr []) = Inr (JStr []) \<and>
   (py_get job ''job_id'' (JStr []) = Inr (JStr []) \<longrightarrow> process_job L c job st = Inr st) \<and>
   (run_searches L E c ss i \<lparr>all_jobs = [], seen_ids = {}\<rparr> = (tr, Inr st') \<longrightarrow>
      KStr [] \<notin> seen_ids st') \<and>
   (WriteFile out \<in> set (fst (main L E)) \<longrightarrow> (\<forall>j \<in> set (jobs out). jid j \<noteq> JStr []))"
proof (intro conjI impI ballI)
  assume "map_of kvs ''job_id'' = None"
  then show "py_get (JObj kvs) ''job_id'' (JStr []) = Inr (JStr [])"
    by (simp add: dict_get_missing)
next
  show "py_get (JObj (kvs @ [(''job_id'', JStr [])])) ''job_id'' (JStr []) = Inr (JStr [])"
    by (simp add: dict_get_last)
next
  assume "py_get job ''job_id'' (JStr []) = Inr (JStr [])"
  then show "process_job L c job st = Inr st"
    by (rule process_job_falsy_id) simp
next
  assume "run_searches L E c ss i \<lparr>all_jobs = [], seen_ids = {}\<rparr> = (tr, Inr st')"
  then have a: "accumulators_ok L c st'" by (rule accumulators_ok_loop)
  show "KStr [] \<notin> seen_ids st'"
  proof
    assume "KStr [] \<in> seen_ids st'"
    with a obtain j where j: "j \<in> set (all_jobs st')" "py_hash (jid j) = Inr (KStr [])"
      by (auto simp: accumulators_ok_def)
    from j(2) have "jid j = JStr []" by (cases "jid j") (simp_all split: if_splits)
    moreover from a j(1) have "truthy (jid j)" by (simp add: accumulators_ok_def)
    ultimately show False by simp
  qed
next
  fix j
  assume "WriteFile out \<in> set (fst (main L E))" and j: "j \<in> set (jobs out)"
  from accumulators_ok_output [OF this(1)] j have "truthy (jid j)"
    by (simp add: accumulators_ok_def)
  then show "jid j \<noteq> JStr []" by auto
qed

theorem empty_id_is_missing_id_witness:
  "main example_lib empty_id_env =
     (all_requests @
        [WriteFile (example_output [example_record ''J1'' ''2024-05-01T12:00:00.000Z''])],
      Exit 0) \<and>
   process_job example_lib 0 (listing [] ''2024-05-01T12:00:00.000Z'')
     \<lparr>all_jobs = [], seen_ids = {}\<rparr> = Inr \<lparr>all_jobs = [], seen_ids = {}\<rparr> \<and>
   process_job example_lib 0
     (JObj [(''job_posted_at_datetime_utc'', JStr ''2024-05-01T12:00:00.000Z'')])
     \<lparr>all_jobs = [], seen_ids = {}\<rparr> = Inr \<lparr>all_jobs = [], seen_ids = {}\<rparr> \<and>
   run_searches example_lib empty_id_env 0 SEARCHES 0 \<lparr>all_jobs = [], seen_ids = {}\<rparr> =
     (all_requests,
      Inr \<lparr>all_jobs = [example_record ''J1'' ''2024-05-01T12:00:00.000Z''],
           seen_ids = {KStr ''J1''}\<rparr>) \<and>
   KStr [] \<notin> {KStr ''J1''} \<and>
   jid (example_record ''J1'' ''2024-05-01T12:00:00.000Z'') \<noteq> JStr []"
proof -
  let ?st = "\<lparr>all_jobs = [example_record ''J1'' ''2024-05-01T12:00:00.000Z''],
               seen_ids = {KStr ''J1''}\<rparr>"
  have m: "main example_lib empty_id_env =
     (all_requests @
        [WriteFile (example_output [example_record ''J1'' ''2024-05-01T12:00:00.000Z''])],
      Exit 0)"
    by code_simp
  then have w: "WriteFile (example_output [example_record ''J1'' ''2024-05-01T12:00:00.000Z''])
      \<in> set (fst (main example_lib empty_id_env))"
    by simp
  have r: "run_searches example_lib empty_id_env 0 SEARCHES 0 \<lparr>all_jobs = [], seen_ids = {}\<rparr> =
      (all_requests, Inr ?st)"
    by code_simp
  have g: "py_get (listing [] ''2024-05-01T12:00:00.000Z'') ''job_id'' (JStr []) = Inr (JStr [])"
    by (simp add: listing_def dict_get_def)
  have h: "map_of [(''job_posted_at_datetime_utc'', JStr ''2024-05-01T12:00:00.000Z'')] ''job_id''
      = None"
    by simp
  note t = empty_id_is_missing_id [where L = example_lib and c = 0
      and st = "\<lparr>all_jobs = [], seen_ids = {}\<rparr>" and E = empty_id_env
      and out = "example_output [example_record ''J1'' ''2024-05-01T12:00:00.000Z'']"
      and ss = SEARCHES and i = 0 and tr = all_requests and st' = ?st]
  from t [where job = "listing [] ''2024-05-01T12:00:00.000Z''"] g
  have 1: "process_job example_lib 0 (listing [] ''2024-05-01T12:00:00.000Z'')
     \<lparr>all_jobs = [], seen_ids = {}\<rparr> = Inr \<lparr>all_jobs = [], seen_ids = {}\<rparr>"
    by blast
  from t [where kvs = "[(''job_posted_at_datetime_utc'', JStr ''2024-05-01T12:00:00.000Z'')]"
      and job = "JObj [(''job_posted_at_datetime_utc'', JStr ''2024-05-01T12:00:00.000Z'')]"] h
  have 2: "process_job example_lib 0
     (JObj [(''job_posted_at_datetime_utc'', JStr ''2024-05-01T12:00:00.000Z'')])
     \<lparr>all_jobs = [], seen_ids = {}\<rparr> = Inr \<lparr>all_jobs = [], seen_ids = {}\<rparr>"
    by blast
  from t w have 3: "jid (example_record ''J1'' ''2024-05-01T12:00:00.000Z'') \<noteq> JStr []"
    by (simp add: example_output_def)
  from t r have 4: "KStr [] \<notin> {KStr ''J1''}"
    by simp
  from m r 1 2 3 4 show ?thesis by simp
qed




text \<open>
  C3. A timestamp that \<^verbatim>\<open>fromisoformat\<close> rejects passes the check, but one that parses
  without an offset makes the comparison with the cutoff raise \<^verbatim>\<open>TypeError\<close>, which the
  handler for \<^verbatim>\<open>ValueError\<close> does not catch: the run ends there, after the first request,
  and writes nothing.
\<close>

theorem naive_timestamp_aborts_run:
  "fromisoformat example_lib (replace_Z ''2024-05-01T12:00:00'') = Inr (Naive 1714564800000000) \<and>
   posted_before_cutoff example_lib (clock_start naive_env - CUTOFF_HOURS * 3600000000)
     (JStr ''2024-05-01T12:00:00'') = Inl TypeError \<and>
   main example_lib naive_env = ([HttpRequest (hd SEARCHES), Sleep 2], Uncaught TypeError)"
  by code_simp

end
